theory Spec2Isabelle
  imports Complex_Main
begin

section \<open>Life in months: the grid builder and the metrics of streamlit_app.py\<close>

text \<open>
  The program builds a NumPy integer array with one cell per month of a life, three years
  (36 months) to a row, and derives three numbers from the two slider inputs. Python
  integers are unbounded, so they are \<open>int\<close>; Python's \<open>//\<close> and \<open>%\<close> round towards
  minus infinity, as \<open>div\<close> and \<open>mod\<close> on \<open>int\<close> do. Every exception the code can raise
  is a value of \<open>py_error\<close>, and a function that can raise returns \<open>py_error + 'a\<close>.
\<close>

subsection \<open>NumPy arrays of integers\<close>

datatype py_error = IndexError | ValueError | ZeroDivisionError

text \<open>A two-dimensional array is the list of its rows; status codes are integers.\<close>

type_synonym grid = "int list list"

text \<open>
  \<open>np.zeros((rows, cols), dtype=int)\<close>: a fresh array of zeros; NumPy raises ValueError
  for a negative dimension.
\<close>

definition np_zeros :: "int \<Rightarrow> int \<Rightarrow> py_error + grid" where
  "np_zeros rows cols =
     (if rows < 0 \<or> cols < 0 then Inl ValueError
      else Inr (replicate (nat rows) (replicate (nat cols) 0)))"

text \<open>
  An index into an axis of length \<open>n\<close>: a negative index counts from the end, and an index
  outside \<open>[-n, n)\<close> raises IndexError.
\<close>

definition norm_index :: "nat \<Rightarrow> int \<Rightarrow> py_error + nat" where
  "norm_index n i =
     (let j = (if i < 0 then i + int n else i)
      in if 0 \<le> j \<and> j < int n then Inr (nat j) else Inl IndexError)"

text \<open>\<open>grid[row, col] = v\<close>, returning the updated array.\<close>

definition setitem :: "grid \<Rightarrow> int \<Rightarrow> int \<Rightarrow> int \<Rightarrow> py_error + grid" where
  "setitem g row col v =
     (case norm_index (length g) row of
        Inl e \<Rightarrow> Inl e
      | Inr r \<Rightarrow>
          (case norm_index (length (g ! r)) col of
             Inl e \<Rightarrow> Inl e
           | Inr c \<Rightarrow> Inr (g[r := (g ! r)[c := v]])))"

text \<open>\<open>range(n)\<close>: the integers from 0 up to \<open>n - 1\<close>, none when \<open>n \<le> 0\<close>.\<close>

definition py_range :: "int \<Rightarrow> int list" where
  "py_range n = [0..n - 1]"

subsection \<open>create_life_months_grid\<close>

text \<open>
  The loop \<open>for month in range(current_months_lived)\<close> with its body
  \<open>grid[month // 36, month % 36] = 1\<close>; an exception in the body ends the loop.
\<close>

fun fill_lived :: "int list \<Rightarrow> grid \<Rightarrow> py_error + grid" where
  "fill_lived [] g = Inr g"
| "fill_lived (month # months) g =
     (let row = month div 36; col = month mod 36
      in case setitem g row col 1 of
           Inl e \<Rightarrow> Inl e
         | Inr g' \<Rightarrow> fill_lived months g')"

definition create_life_months_grid :: "int \<Rightarrow> int \<Rightarrow> py_error + grid" where
  "create_life_months_grid life_span current_age =
     (let total_months = life_span * 12
      in case np_zeros (life_span div 3 + 1) 36 of
           Inl e \<Rightarrow> Inl e
         | Inr grid0 \<Rightarrow>
             (let current_months_lived = current_age * 12
              in case fill_lived (py_range current_months_lived) grid0 of
                   Inl e \<Rightarrow> Inl e
                 | Inr grid1 \<Rightarrow>
                     (let current_row = (current_months_lived - 1) div 36;
                          current_col = (current_months_lived - 1) mod 36
                      in setitem grid1 current_row current_col 2)))"

subsection \<open>The metrics of main\<close>

text \<open>
  Lines 119 to 121 of \<open>main\<close>. \<open>months_lived / months_total\<close> is Python's true division:
  it raises ZeroDivisionError for a zero divisor. The quotient and the percentage are
  kept as exact rationals; the rounding of the floating-point result is not modelled, and
  neither is the OverflowError that Python raises when the quotient of two integers is
  beyond the range of a double (a magnitude of about \<open>1.8 * 10 ^ 308\<close>). The properties
  below that say that the metrics return a value are therefore stated for operands of bounded
  size only, where the quotient is far inside that range.
\<close>

record life_metrics =
  months_lived :: int
  months_total :: int
  percentage_lived :: rat

definition true_div :: "int \<Rightarrow> int \<Rightarrow> py_error + rat" where
  "true_div a b = (if b = 0 then Inl ZeroDivisionError else Inr (rat_of_int a / rat_of_int b))"

definition compute_metrics :: "int \<Rightarrow> int \<Rightarrow> py_error + life_metrics" where
  "compute_metrics expected_lifespan current_age =
     (let months_lived = current_age * 12;
          months_total = expected_lifespan * 12
      in case true_div months_lived months_total of
           Inl e \<Rightarrow> Inl e
         | Inr q \<Rightarrow>
             Inr \<lparr>months_lived = months_lived, months_total = months_total,
                  percentage_lived = q * 100\<rparr>)"

subsection \<open>Reading a grid\<close>

text \<open>The cell of linear month index \<open>m\<close>: row \<open>m div 36\<close>, column \<open>m mod 36\<close>.\<close>

definition month_cell :: "grid \<Rightarrow> nat \<Rightarrow> int" where
  "month_cell g m = g ! (m div 36) ! (m mod 36)"

text \<open>A grid of \<open>r\<close> rows of \<open>c\<close> columns.\<close>

definition has_shape :: "grid \<Rightarrow> nat \<Rightarrow> nat \<Rightarrow> bool" where
  "has_shape g r c = (length g = r \<and> list_all (\<lambda>row. length row = c) g)"

subsection \<open>Arrays as objects in a store\<close>

text \<open>
  A NumPy array is a mutable object and a variable holds a reference to it. Where it matters
  which object a write reaches, the arrays allocated so far are kept in a store, a reference
  is a position in it, \<open>np.zeros\<close> appends a new array and returns its reference, and an item
  assignment replaces the array at the reference. \<open>create_life_months_grid_st\<close> is the same
  function, line by line, with its array in the store; it returns the reference.
\<close>

type_synonym store = "grid list"

definition np_zeros_st :: "store \<Rightarrow> int \<Rightarrow> int \<Rightarrow> py_error + (nat \<times> store)" where
  "np_zeros_st s rows cols =
     (case np_zeros rows cols of
        Inl e \<Rightarrow> Inl e
      | Inr g \<Rightarrow> Inr (length s, s @ [g]))"

definition setitem_st :: "store \<Rightarrow> nat \<Rightarrow> int \<Rightarrow> int \<Rightarrow> int \<Rightarrow> py_error + store" where
  "setitem_st s ref row col v =
     (case setitem (s ! ref) row col v of
        Inl e \<Rightarrow> Inl e
      | Inr g \<Rightarrow> Inr (s[ref := g]))"

fun fill_lived_st :: "int list \<Rightarrow> nat \<Rightarrow> store \<Rightarrow> py_error + store" where
  "fill_lived_st [] ref s = Inr s"
| "fill_lived_st (month # months) ref s =
     (let row = month div 36; col = month mod 36
      in case setitem_st s ref row col 1 of
           Inl e \<Rightarrow> Inl e
         | Inr s' \<Rightarrow> fill_lived_st months ref s')"

definition create_life_months_grid_st :: "store \<Rightarrow> int \<Rightarrow> int \<Rightarrow> py_error + (nat \<times> store)" where
  "create_life_months_grid_st s life_span current_age =
     (let total_months = life_span * 12
      in case np_zeros_st s (life_span div 3 + 1) 36 of
           Inl e \<Rightarrow> Inl e
         | Inr (grid, s0) \<Rightarrow>
             (let current_months_lived = current_age * 12
              in case fill_lived_st (py_range current_months_lived) grid s0 of
                   Inl e \<Rightarrow> Inl e
                 | Inr s1 \<Rightarrow>
                     (let current_row = (current_months_lived - 1) div 36;
                          current_col = (current_months_lived - 1) mod 36
                      in case setitem_st s1 grid current_row current_col 2 of
                           Inl e \<Rightarrow> Inl e
                         | Inr s2 \<Rightarrow> Inr (grid, s2))))"

section \<open>Properties\<close>

subsection \<open>Indexing and single writes\<close>

lemma norm_index_nat: "i < n \<Longrightarrow> norm_index n (int i) = Inr i"
  by (simp add: norm_index_def)

lemma norm_index_neg:
  "i < 0 \<Longrightarrow> - int n \<le> i \<Longrightarrow> norm_index n i = Inr (nat (i + int n))"
  by (simp add: norm_index_def)

lemma norm_index_high: "int n \<le> i \<Longrightarrow> norm_index n i = Inl IndexError"
  by (simp add: norm_index_def)

lemma norm_index_low: "i < - int n \<Longrightarrow> norm_index n i = Inl IndexError"
  by (simp add: norm_index_def)

lemma setitem_nat:
  "r < length g \<Longrightarrow> c < length (g ! r) \<Longrightarrow>
   setitem g (int r) (int c) v = Inr (g[r := (g ! r)[c := v]])"
  by (simp add: setitem_def norm_index_nat)

lemma has_shape_row: "has_shape g R C \<Longrightarrow> r < R \<Longrightarrow> length (g ! r) = C"
  by (simp add: has_shape_def list_all_length)

lemma has_shape_update:
  "has_shape g R C \<Longrightarrow> has_shape (g[r := (g ! r)[c := v]]) R C"
  by (cases "r < length g") (auto simp: has_shape_def list_all_length nth_list_update)

lemma has_shape_zeros: "has_shape (replicate R (replicate C 0)) R C"
  by (simp add: has_shape_def list_all_length)

lemma month_index_eq:
  "c < 36 \<Longrightarrow> (k = r * 36 + c) = (k div 36 = r \<and> k mod 36 = (c::nat))"
  by auto

lemma month_cell_update:
  assumes "r < length g" and "c < length (g ! r)" and "c < 36"
  shows "month_cell (g[r := (g ! r)[c := v]]) k =
           (if k = r * 36 + c then v else month_cell g k)"
proof (cases "k div 36 = r")
  case True
  with assms show ?thesis
    by (simp add: month_cell_def month_index_eq nth_list_update)
next
  case False
  with assms show ?thesis
    by (simp add: month_cell_def month_index_eq nth_list_update)
qed

lemma setitem_month:
  assumes "has_shape g R 36" and "m < R * 36"
  shows "setitem g (int m div 36) (int m mod 36) v
           = Inr (g[m div 36 := (g ! (m div 36))[m mod 36 := v]])"
proof -
  have r: "m div 36 < length g" using assms by (simp add: has_shape_def)
  have c: "m mod 36 < length (g ! (m div 36))"
    using assms r by (simp add: has_shape_row [OF assms(1)] has_shape_def)
  have "int m div 36 = int (m div 36)" "int m mod 36 = int (m mod 36)"
    by (simp_all add: zdiv_int zmod_int)
  then show ?thesis using setitem_nat [OF r c] by simp
qed

lemma month_cell_setitem:
  assumes "has_shape g R 36" and "m < R * 36"
  shows "month_cell (g[m div 36 := (g ! (m div 36))[m mod 36 := v]]) k =
           (if k = m then v else month_cell g k)"
proof -
  have r: "m div 36 < length g" using assms by (simp add: has_shape_def)
  have c: "m mod 36 < length (g ! (m div 36))"
    using assms r by (simp add: has_shape_row [OF assms(1)] has_shape_def)
  show ?thesis using month_cell_update [OF r c, of v k] by simp
qed

lemma fill_lived_append:
  "fill_lived (xs @ ys) g =
     (case fill_lived xs g of Inl e \<Rightarrow> Inl e | Inr g' \<Rightarrow> fill_lived ys g')"
  by (induction xs arbitrary: g) (auto split: sum.splits)

lemma py_range_Suc: "py_range (int (Suc n)) = py_range (int n) @ [int n]"
  using upto_rec2 [of 0 "int n"] by (simp add: py_range_def)

lemma py_range_nonpos: "n \<le> 0 \<Longrightarrow> py_range n = []"
  by (simp add: py_range_def)

lemma fill_lived_range:
  assumes "has_shape g R 36"
  shows "n \<le> R * 36 \<Longrightarrow>
         \<exists>g'. fill_lived (py_range (int n)) g = Inr g' \<and> has_shape g' R 36 \<and>
              (\<forall>k. month_cell g' k = (if k < n then 1 else month_cell g k))"
proof (induction n)
  case 0
  then show ?case using assms by (simp add: py_range_nonpos)
next
  case (Suc n)
  then obtain g' where g': "fill_lived (py_range (int n)) g = Inr g'"
    "has_shape g' R 36" "\<forall>k. month_cell g' k = (if k < n then 1 else month_cell g k)"
    by auto
  have n: "n < R * 36" using Suc.prems by simp
  let ?g = "g'[n div 36 := (g' ! (n div 36))[n mod 36 := 1]]"
  have "fill_lived (py_range (int n) @ [int n]) g = Inr ?g"
    by (simp add: fill_lived_append g'(1) setitem_month [OF g'(2) n])
  then have "fill_lived (py_range (int (Suc n))) g = Inr ?g"
    by (simp only: py_range_Suc)
  moreover have "has_shape ?g R 36" using g'(2) by (rule has_shape_update)
  moreover have "\<forall>k. month_cell ?g k = (if k < Suc n then 1 else month_cell g k)"
    using g'(3) by (auto simp: month_cell_setitem [OF g'(2) n])
  ultimately show ?case by blast
qed

lemma fill_lived_overflow:
  assumes "has_shape g R 36" and "R * 36 < n"
  shows "fill_lived (py_range (int n)) g = Inl IndexError"
proof -
  let ?m = "int (R * 36)"
  obtain g' where g': "fill_lived (py_range ?m) g = Inr g'" "has_shape g' R 36"
    using fill_lived_range [OF assms(1), of "R * 36"] by auto
  have split: "py_range (int n) = py_range ?m @ ?m # [?m + 1..int n - 1]"
    using assms(2) upto_split3 [of 0 ?m "int n - 1"] by (simp add: py_range_def)
  have "setitem g' (?m div 36) (?m mod 36) 1 = Inl IndexError"
    using g'(2) by (simp add: setitem_def has_shape_def norm_index_high)
  then have "fill_lived (?m # [?m + 1..int n - 1]) g' = Inl IndexError"
    by (simp del: of_nat_mult)
  then have "fill_lived (py_range ?m @ ?m # [?m + 1..int n - 1]) g = Inl IndexError"
    by (simp only: fill_lived_append g'(1) sum.case)
  then show ?thesis by (simp only: split)
qed

subsection \<open>The result of create_life_months_grid\<close>

text \<open>
  With a positive age the loop marks the months \<open>0\<close> to \<open>age * 12 - 1\<close> and the last
  write overwrites the last of them; with an age of zero or less the loop does nothing and
  the last write goes through a negative row index.
\<close>

lemma np_zeros_ok:
  "0 \<le> rows \<Longrightarrow> np_zeros rows 36 = Inr (replicate (nat rows) (replicate 36 0))"
  by (simp add: np_zeros_def)

lemma month_cell_zeros: "k < R * 36 \<Longrightarrow> month_cell (replicate R (replicate 36 0)) k = 0"
  by (simp add: month_cell_def less_mult_imp_div_less)

lemma create_lived:
  assumes "0 < A" and "A * 12 \<le> (L div 3 + 1) * 36"
  shows "\<exists>g. create_life_months_grid L A = Inr g \<and> has_shape g (nat (L div 3 + 1)) 36 \<and>
             (\<forall>k < nat (L div 3 + 1) * 36.
                month_cell g k =
                  (if k < nat (A * 12 - 1) then 1 else if k = nat (A * 12 - 1) then 2 else 0))"
proof -
  define R where "R = nat (L div 3 + 1)"
  define n where "n = nat (A * 12)"
  let ?z = "replicate R (replicate 36 (0::int))"
  have "0 \<le> x" if "0 < A" and "A * 12 \<le> x * 36" for x :: int
    using that by linarith
  from this [OF assms] have rows: "0 \<le> L div 3 + 1" .
  have n: "int n = A * 12" and n0: "0 < n" using assms(1) by (simp_all add: n_def)
  have "int n \<le> int (R * 36)" using assms(2) rows by (simp add: n R_def)
  then have nR: "n \<le> R * 36" by (simp only: of_nat_le_iff)
  have z: "np_zeros (L div 3 + 1) 36 = Inr ?z"
    using rows by (simp add: np_zeros_ok R_def)
  obtain g1 where g1: "fill_lived (py_range (int n)) ?z = Inr g1" "has_shape g1 R 36"
      "\<forall>k. month_cell g1 k = (if k < n then 1 else month_cell ?z k)"
    using fill_lived_range [OF has_shape_zeros nR] by blast
  define m where "m = n - 1"
  have m: "m < R * 36" and mn: "n = Suc m" using nR n0 by (simp_all add: m_def)
  have idx: "A * 12 - 1 = int m" using n mn by simp
  let ?g = "g1[m div 36 := (g1 ! (m div 36))[m mod 36 := 2]]"
  have last: "setitem g1 ((A * 12 - 1) div 36) ((A * 12 - 1) mod 36) 2 = Inr ?g"
    using setitem_month [OF g1(2) m, of 2] by (simp only: idx)
  have "create_life_months_grid L A = Inr ?g"
    by (simp only: create_life_months_grid_def Let_def z sum.case g1(1) [unfolded n] last)
  moreover have "has_shape ?g (nat (L div 3 + 1)) 36"
    using g1(2) unfolding R_def by (rule has_shape_update)
  moreover have "month_cell ?g k =
      (if k < nat (A * 12 - 1) then 1 else if k = nat (A * 12 - 1) then 2 else 0)"
    if "k < nat (L div 3 + 1) * 36" for k
  proof -
    have "k < R * 36" using that by (simp add: R_def)
    then have "month_cell ?z k = 0" by (rule month_cell_zeros)
    moreover have "nat (A * 12 - 1) = m" by (simp add: idx)
    ultimately show ?thesis
      using g1(3) by (auto simp: month_cell_setitem [OF g1(2) m] mn)
  qed
  ultimately show ?thesis by blast
qed

lemma create_nonpos:
  assumes "A \<le> 0" and "0 \<le> L div 3 + 1" and "- (L div 3 + 1) \<le> (A * 12 - 1) div 36"
  shows "create_life_months_grid L A =
           Inr ((replicate (nat (L div 3 + 1)) (replicate 36 0))
                  [nat ((A * 12 - 1) div 36 + (L div 3 + 1)) :=
                     (replicate 36 0)[nat ((A * 12 - 1) mod 36) := 2]])"
proof -
  let ?R = "nat (L div 3 + 1)"
  let ?row = "(A * 12 - 1) div 36"
  let ?col = "(A * 12 - 1) mod 36"
  let ?z = "replicate ?R (replicate 36 (0::int))"
  have z: "np_zeros (L div 3 + 1) 36 = Inr ?z"
    using assms(2) by (simp add: np_zeros_ok)
  have loop: "fill_lived (py_range (A * 12)) ?z = Inr ?z"
    using assms(1) by (simp add: py_range_nonpos)
  have neg: "?row < 0" using assms(1) by simp
  have r: "norm_index ?R ?row = Inr (nat (?row + (L div 3 + 1)))"
    using norm_index_neg [of ?row ?R] neg assms(2,3) by simp
  have rlt: "nat (?row + (L div 3 + 1)) < ?R" using neg assms(3) by simp
  have c: "norm_index 36 ?col = Inr (nat ?col)" by (simp add: norm_index_def)
  have "setitem ?z ?row ?col 2 =
          Inr (?z[nat (?row + (L div 3 + 1)) := (replicate 36 0)[nat ?col := 2]])"
    using rlt by (simp add: setitem_def r c)
  then show ?thesis
    by (simp only: create_life_months_grid_def Let_def z sum.case loop)
qed

lemma create_negative_rows:
  "L div 3 + 1 < 0 \<Longrightarrow> create_life_months_grid L A = Inl ValueError"
  by (simp add: create_life_months_grid_def np_zeros_def)

lemma create_overflow:
  assumes "0 \<le> L div 3 + 1" and "(L div 3 + 1) * 36 < A * 12"
  shows "create_life_months_grid L A = Inl IndexError"
proof -
  define R where "R = nat (L div 3 + 1)"
  define n where "n = nat (A * 12)"
  let ?z = "replicate R (replicate 36 (0::int))"
  have z: "np_zeros (L div 3 + 1) 36 = Inr ?z"
    using assms(1) by (simp add: np_zeros_ok R_def)
  have n: "int n = A * 12" using assms by (simp add: n_def)
  have "int (R * 36) < int n" using assms by (simp add: n R_def)
  then have "R * 36 < n" by (simp only: of_nat_less_iff)
  then have "fill_lived (py_range (int n)) ?z = Inl IndexError"
    by (rule fill_lived_overflow [OF has_shape_zeros])
  then show ?thesis
    by (simp only: create_life_months_grid_def Let_def z sum.case n)
qed

lemma create_underflow:
  assumes "A \<le> 0" and "0 \<le> L div 3 + 1" and "(A * 12 - 1) div 36 < - (L div 3 + 1)"
  shows "create_life_months_grid L A = Inl IndexError"
proof -
  define R where "R = nat (L div 3 + 1)"
  let ?z = "replicate R (replicate 36 (0::int))"
  have z: "np_zeros (L div 3 + 1) 36 = Inr ?z"
    using assms(2) by (simp add: np_zeros_ok R_def)
  have loop: "fill_lived (py_range (A * 12)) ?z = Inr ?z"
    using assms(1) by (simp add: py_range_nonpos)
  have "(A * 12 - 1) div 36 < - int (length ?z)" using assms(2,3) by (simp add: R_def)
  then have "norm_index (length ?z) ((A * 12 - 1) div 36) = Inl IndexError"
    by (rule norm_index_low)
  then have "setitem ?z ((A * 12 - 1) div 36) ((A * 12 - 1) mod 36) 2 = Inl IndexError"
    by (simp add: setitem_def)
  then show ?thesis
    by (simp only: create_life_months_grid_def Let_def z sum.case loop)
qed

subsection \<open>Claims about the grid\<close>

lemma valid_writes_in_range:
  fixes A L :: int
  assumes "0 \<le> A" and "A \<le> L"
  shows "A * 12 \<le> (L div 3 + 1) * 36"
proof -
  have "L mod 3 < 3" by simp
  then have "L < 3 * (L div 3) + 3" using div_mult_mod_eq [of L 3] by linarith
  with assms show ?thesis by simp
qed

lemma has_shape_marked:
  "has_shape ((replicate R (replicate 36 0))[r := (replicate 36 0)[c := v]]) R 36"
  by (auto simp: has_shape_def list_all_iff dest!: set_update_subset_insert [THEN subsetD])

text \<open>
  Claim C1. For a lifespan between 50 and 120 and an age between 1 and the lifespan,
  \<open>create_life_months_grid\<close> returns a grid in which the cell of linear index
  \<open>age * 12 - 1\<close> (row \<open>(age * 12 - 1) div 36\<close>, column \<open>(age * 12 - 1) mod 36\<close>) is the only
  cell equal to 2, every cell of a smaller linear index is 1, and every cell of linear index
  \<open>age * 12\<close> or more is 0. The cells of a grid of \<open>R\<close> rows of 36 columns are exactly the
  \<open>month_cell g m\<close> with \<open>m < R * 36\<close>.
\<close>
theorem lived_months_then_current_month:
  assumes "50 \<le> L" and "L \<le> 120" and "0 < A" and "A \<le> L"
  shows "\<exists>g. create_life_months_grid L A = Inr g \<and>
             has_shape g (nat (L div 3 + 1)) 36 \<and>
             nat (A * 12 - 1) < nat (L div 3 + 1) * 36 \<and>
             (\<forall>m < nat (L div 3 + 1) * 36.
                (month_cell g m = 2 \<longleftrightarrow> m = nat (A * 12 - 1)) \<and>
                (m < nat (A * 12 - 1) \<longrightarrow> month_cell g m = 1) \<and>
                (nat (A * 12) \<le> m \<longrightarrow> month_cell g m = 0))"
proof -
  have le: "A * 12 \<le> (L div 3 + 1) * 36"
    using assms by (intro valid_writes_in_range) simp_all
  obtain g where g: "create_life_months_grid L A = Inr g"
      "has_shape g (nat (L div 3 + 1)) 36"
      "\<forall>k < nat (L div 3 + 1) * 36. month_cell g k =
         (if k < nat (A * 12 - 1) then 1 else if k = nat (A * 12 - 1) then 2 else 0)"
    using create_lived [OF assms(3) le] by blast
  have "int (nat (A * 12 - 1)) < int (nat (L div 3 + 1) * 36)"
    using le assms by simp
  then have pos: "nat (A * 12 - 1) < nat (L div 3 + 1) * 36"
    by (simp only: of_nat_less_iff)
  have "nat (A * 12) = Suc (nat (A * 12 - 1))" using assms(3) by simp
  with g(3) have "\<forall>m < nat (L div 3 + 1) * 36.
                (month_cell g m = 2 \<longleftrightarrow> m = nat (A * 12 - 1)) \<and>
                (m < nat (A * 12 - 1) \<longrightarrow> month_cell g m = 1) \<and>
                (nat (A * 12) \<le> m \<longrightarrow> month_cell g m = 0)"
    by auto
  with g(1,2) pos show ?thesis by blast
qed

theorem lived_months_then_current_month_witness:
  "(50::int) \<le> 90 \<and> (90::int) \<le> 120 \<and> (0::int) < 30 \<and> (30::int) \<le> 90 \<and>
   (\<exists>g. create_life_months_grid 90 30 = Inr g \<and> month_cell g 359 = 2 \<and>
        month_cell g 0 = 1 \<and> month_cell g 360 = 0)"
  using lived_months_then_current_month [of 90 30] by auto

text \<open>
  Claim C2. For a lifespan between 50 and 120 and an age between 0 and the lifespan, the
  grid returned has exactly \<open>lifespan div 3 + 1\<close> rows, each of exactly 36 columns.
\<close>
theorem grid_rows_and_columns:
  assumes "50 \<le> L" and "L \<le> 120" and "0 \<le> A" and "A \<le> L"
  shows "\<exists>g. create_life_months_grid L A = Inr g \<and>
             int (length g) = L div 3 + 1 \<and> list_all (\<lambda>row. length row = 36) g"
proof (cases "0 < A")
  case True
  have "A * 12 \<le> (L div 3 + 1) * 36" using assms(3,4) by (rule valid_writes_in_range)
  from create_lived [OF True this] assms(1) show ?thesis
    by (auto simp: has_shape_def)
next
  case False
  with assms have "A \<le> 0" "0 \<le> L div 3 + 1" "- (L div 3 + 1) \<le> (A * 12 - 1) div 36"
    by simp_all
  from create_nonpos [OF this] assms(1) has_shape_marked show ?thesis
    by (simp add: has_shape_def)
qed

theorem grid_rows_and_columns_witness:
  "(50::int) \<le> 50 \<and> (50::int) \<le> 120 \<and> (0::int) \<le> 0 \<and> (0::int) \<le> 50 \<and>
   (\<exists>g. create_life_months_grid 50 0 = Inr g \<and> length g = 17 \<and>
        list_all (\<lambda>row. length row = 36) g)"
  using grid_rows_and_columns [of 50 0] by auto

text \<open>
  Claim C9. For a lifespan between 50 and 120 and age 0, \<open>create_life_months_grid\<close> raises
  no error: the index \<open>-1\<close> gives row \<open>-1\<close> and column 35, the row index \<open>-1\<close> addresses the
  last row \<open>lifespan div 3\<close>, and the grid returned has a 2 in that cell and 0 everywhere else.
\<close>
theorem age_zero_marks_last_cell:
  assumes "50 \<le> L" and "L \<le> 120"
  shows "\<exists>g. create_life_months_grid L 0 = Inr g \<and>
             has_shape g (nat (L div 3 + 1)) 36 \<and>
             g ! nat (L div 3) ! 35 = 2 \<and>
             (\<forall>r c. r < nat (L div 3 + 1) \<and> c < 36 \<and> (r, c) \<noteq> (nat (L div 3), 35)
                \<longrightarrow> g ! r ! c = 0)"
proof -
  let ?R = "nat (L div 3 + 1)"
  let ?g = "(replicate ?R (replicate 36 (0::int)))[nat (L div 3) := (replicate 36 0)[35 := 2]]"
  have "(0::int) \<le> 0" "0 \<le> L div 3 + 1" "- (L div 3 + 1) \<le> (0 * 12 - 1) div 36"
    using assms by simp_all
  from create_nonpos [OF this] have g: "create_life_months_grid L 0 = Inr ?g" by simp
  have r: "nat (L div 3) < ?R" using assms by simp
  have "has_shape ?g ?R 36" by (rule has_shape_marked)
  moreover have "?g ! nat (L div 3) ! 35 = 2" using r by simp
  moreover have "\<forall>r c. r < ?R \<and> c < 36 \<and> (r, c) \<noteq> (nat (L div 3), 35) \<longrightarrow> ?g ! r ! c = 0"
    using r by (auto simp: nth_list_update)
  ultimately show ?thesis using g by blast
qed

theorem age_zero_marks_last_cell_witness:
  "(50::int) \<le> 50 \<and> (50::int) \<le> 120 \<and>
   (\<exists>g. create_life_months_grid 50 0 = Inr g \<and> g ! 16 ! 35 = 2 \<and> g ! 0 ! 0 = 0)"
  using age_zero_marks_last_cell [of 50] by auto

text \<open>
  Claim C10. For an age of at least 1 and at most the lifespan, every write of
  \<open>create_life_months_grid\<close> is inside the grid: each month index \<open>m\<close> of the loop, and the
  current-month index \<open>age * 12 - 1\<close> which is one of them, has a row \<open>m div 36\<close> of at most
  \<open>lifespan div 3\<close> and a column \<open>m mod 36\<close> in \<open>[0, 36)\<close>, both indices are accepted as they
  are, and the function returns a grid rather than an IndexError.
\<close>
theorem writes_within_bounds:
  assumes "1 \<le> A" and "A \<le> L"
  shows "(\<forall>m. 0 \<le> m \<and> m < A * 12 \<longrightarrow>
            m div 36 \<le> L div 3 \<and> 0 \<le> m mod 36 \<and> m mod 36 < 36 \<and>
            norm_index (nat (L div 3 + 1)) (m div 36) = Inr (nat (m div 36)) \<and>
            norm_index 36 (m mod 36) = Inr (nat (m mod 36))) \<and>
         0 \<le> A * 12 - 1 \<and> A * 12 - 1 < A * 12 \<and>
         (\<exists>g. create_life_months_grid L A = Inr g)"
proof -
  have le: "A * 12 \<le> (L div 3 + 1) * 36"
    using assms by (intro valid_writes_in_range) simp_all
  have "m div 36 \<le> L div 3 \<and> 0 \<le> m mod 36 \<and> m mod 36 < 36 \<and>
        norm_index (nat (L div 3 + 1)) (m div 36) = Inr (nat (m div 36)) \<and>
        norm_index 36 (m mod 36) = Inr (nat (m mod 36))"
    if "0 \<le> m \<and> m < A * 12" for m
  proof -
    have "m < (L div 3 + 1) * 36" using that le by simp
    then have row: "m div 36 < L div 3 + 1" by (simp add: div_less_iff_less_mult)
    have "0 \<le> m div 36" using that by (simp add: pos_imp_zdiv_nonneg_iff)
    with row show ?thesis by (simp add: norm_index_def)
  qed
  moreover have "\<exists>g. create_life_months_grid L A = Inr g"
    using create_lived [OF _ le] assms(1) by auto
  ultimately show ?thesis using assms(1) by simp
qed

theorem writes_within_bounds_witness:
  "(1::int) \<le> 30 \<and> (30::int) \<le> 90 \<and> (0::int) \<le> 359 \<and> (359::int) < 30 * 12 \<and>
   norm_index (nat (90 div 3 + 1)) (359 div 36) = Inr (nat (359 div 36)) \<and>
   (\<exists>g. create_life_months_grid 90 30 = Inr g)"
proof -
  have h: "(1::int) \<le> 30" "(30::int) \<le> 90" by simp_all
  have m: "(0::int) \<le> 359 \<and> (359::int) < 30 * 12" by simp
  from writes_within_bounds [OF h]
  have "norm_index (nat (90 div 3 + 1)) (359 div 36) = Inr (nat (359 div 36))"
    and "\<exists>g. create_life_months_grid 90 30 = Inr g"
    using m by blast+
  with h m show ?thesis by blast
qed

subsection \<open>Age zero\<close>

text \<open>
  Claim C3 says that for age 0 the grid has no cell equal to 2 and all its cells are 0. The
  code has no branch for age 0: it computes the index \<open>-1\<close>, hence row \<open>-1\<close> and column 35, and
  NumPy takes row \<open>-1\<close> for the last row. For lifespan 50 and age 0 the grid returned has 17
  rows and the last cell of the last row, whose linear index 611 is beyond the 600 months of
  the lifespan, is 2.
\<close>
theorem age_zero_highlights_a_future_month:
  "create_life_months_grid 50 0 =
     Inr ((replicate 17 (replicate 36 0))[16 := (replicate 36 0)[35 := 2]])"
  using create_nonpos [of 0 50] by simp

text \<open>
  Claim C4 says that for age 0 the computation of \<open>current_row\<close> and \<open>current_col\<close> from \<open>-1\<close>
  makes \<open>create_life_months_grid\<close> raise an index fault. It does not: at lifespan 50 and age
  0 the result is not an IndexError.
\<close>
theorem age_zero_index_fault_counterexample:
  "create_life_months_grid 50 0 \<noteq> Inl IndexError"
  using create_nonpos [of 0 50] by simp

text \<open>
  Claim C4 as amended. For a lifespan between 50 and 120 and age 0, \<open>current_row = -1\<close> is
  accepted as the last row \<open>lifespan div 3\<close> and \<open>current_col = 35\<close> as column 35, so no index
  fault is raised and \<open>create_life_months_grid\<close> returns a grid.
\<close>
theorem age_zero_no_index_fault:
  assumes "50 \<le> L" and "L \<le> 120"
  shows "norm_index (nat (L div 3 + 1)) ((0 * 12 - 1) div 36) = Inr (nat (L div 3)) \<and>
         norm_index 36 ((0 * 12 - 1) mod 36) = Inr 35 \<and>
         (\<exists>g. create_life_months_grid L 0 = Inr g)"
proof -
  have "(0::int) \<le> 0" "0 \<le> L div 3 + 1" "- (L div 3 + 1) \<le> (0 * 12 - 1) div 36"
    using assms by simp_all
  from create_nonpos [OF this] have "\<exists>g. create_life_months_grid L 0 = Inr g" by blast
  moreover have "norm_index (nat (L div 3 + 1)) ((0 * 12 - 1) div 36) = Inr (nat (L div 3))"
    using assms by (simp add: norm_index_def Let_def pos_imp_zdiv_nonneg_iff)
  moreover have "norm_index 36 ((0 * 12 - 1) mod 36) = Inr 35"
    by (simp add: norm_index_def)
  ultimately show ?thesis by blast
qed

theorem age_zero_no_index_fault_witness:
  "(50::int) \<le> 50 \<and> (50::int) \<le> 120 \<and>
   norm_index (nat (50 div 3 + 1)) ((0 * 12 - 1) div 36) = Inr (nat (50 div 3)) \<and>
   (\<exists>g. create_life_months_grid 50 0 = Inr g)"
  using age_zero_no_index_fault [of 50] by simp

subsection \<open>Metrics\<close>

text \<open>
  Claim C5. For a lifespan between 50 and 120 and an age between 0 and the lifespan the
  metrics are \<open>months_lived = age * 12\<close>, \<open>months_total = lifespan * 12\<close> and
  \<open>percentage_lived = months_lived / months_total * 100\<close>; and when \<open>months_total\<close> is 0 the
  computation fails with ZeroDivisionError instead of returning a value.
\<close>
theorem metrics_values:
  "(50 \<le> L \<and> L \<le> 120 \<and> 0 \<le> A \<and> A \<le> L \<longrightarrow>
      compute_metrics L A =
        Inr \<lparr>months_lived = A * 12, months_total = L * 12,
             percentage_lived = rat_of_int (A * 12) / rat_of_int (L * 12) * 100\<rparr>) \<and>
   (L * 12 = 0 \<longrightarrow> compute_metrics L A = Inl ZeroDivisionError)"
  by (simp add: compute_metrics_def true_div_def)

theorem metrics_values_witness:
  "compute_metrics 90 30 =
     Inr \<lparr>months_lived = 360, months_total = 1080, percentage_lived = 100 / 3\<rparr> \<and>
   compute_metrics 0 30 = Inl ZeroDivisionError"
  using metrics_values [of 90 30] metrics_values [of 0 30] by simp

text \<open>
  Claim C6. For lifespan 120 and age 120: 1440 months lived of 1440, 100 percent; the grid
  has 41 rows of 36 columns; the cell of linear index 1439 (row 39, column 35) is 2; every
  cell of a smaller linear index is 1.
\<close>
theorem scenario_lifespan_120_age_120:
  "compute_metrics 120 120 =
     Inr \<lparr>months_lived = 1440, months_total = 1440, percentage_lived = 100\<rparr> \<and>
   (\<exists>g. create_life_months_grid 120 120 = Inr g \<and>
        length g = 41 \<and> list_all (\<lambda>row. length row = 36) g \<and>
        g ! 39 ! 35 = 2 \<and> month_cell g 1439 = 2 \<and>
        (\<forall>m < 1439. month_cell g m = 1))"
proof -
  have "(0::int) < 120" "(120::int) * 12 \<le> (120 div 3 + 1) * 36" by simp_all
  from create_lived [OF this] obtain g where g: "create_life_months_grid 120 120 = Inr g"
      "has_shape g 41 36"
      "\<forall>k < 1476. month_cell g k = (if k < 1439 then 1 else if k = 1439 then 2 else 0)"
    by auto
  have "month_cell g 1439 = 2" using g(3) by simp
  moreover from this have "g ! 39 ! 35 = 2" by (simp add: month_cell_def)
  moreover have "\<forall>m < 1439. month_cell g m = 1" using g(3) by simp
  moreover have "compute_metrics 120 120 =
     Inr \<lparr>months_lived = 1440, months_total = 1440, percentage_lived = 100\<rparr>"
    by (simp add: compute_metrics_def true_div_def)
  ultimately show ?thesis using g(1,2) by (auto simp: has_shape_def)
qed

theorem scenario_lifespan_120_age_120_witness:
  "\<exists>g. create_life_months_grid 120 120 = Inr g \<and> (0::nat) < 1439 \<and> month_cell g 0 = 1"
proof -
  from scenario_lifespan_120_age_120 obtain g where
    "create_life_months_grid 120 120 = Inr g" "\<forall>m < 1439. month_cell g m = 1"
    by blast
  then show ?thesis by auto
qed

subsection \<open>Inputs outside the bounds\<close>

lemma row_below: "(x div 36 < r) = (x < r * (36::int))"
  by presburger

lemma row_above: "(r \<le> x div 36) = (r * 36 \<le> (x::int))"
  by presburger

text \<open>
  Claim C8 says that inputs outside the bounds (lifespan below 1, age below 0, age above the
  lifespan) make the grid and metrics computations raise an error instead of returning. The
  code checks nothing: age \<open>-1\<close> and age 51 at lifespan 50 both give a grid, and age 60 at
  lifespan 50 gives metrics.
\<close>
theorem invalid_inputs_return_counterexample:
  "\<not> isl (create_life_months_grid 50 (-1)) \<and> \<not> isl (create_life_months_grid 50 51) \<and>
   \<not> isl (compute_metrics 50 60)"
proof -
  have "\<not> isl (create_life_months_grid 50 (-1))"
    using create_nonpos [of "-1" 50] by simp
  moreover have "\<not> isl (create_life_months_grid 50 51)"
    using create_lived [of 51 50] by auto
  moreover have "\<not> isl (compute_metrics 50 60)"
    by (simp add: compute_metrics_def true_div_def)
  ultimately show ?thesis by blast
qed

text \<open>
  Claim C8 as amended, for a lifespan and an age between \<open>-1000\<close> and 1000; this range holds
  inputs that break each of the three bounds, and keeps the array small and the quotient of the
  metrics far inside the range of a double. The code validates nothing and fails only where
  NumPy and Python fail. \<open>create_life_months_grid\<close> raises ValueError when the row count
  \<open>lifespan div 3 + 1\<close> is negative, raises IndexError when the row \<open>(age * 12 - 1) div 36\<close> of
  the last month is outside \<open>[-rows, rows)\<close>, and returns a grid otherwise; the metrics fail with
  ZeroDivisionError when the lifespan is 0 and return a value otherwise. Nothing is said about
  inputs outside that range, where Python's true division can raise OverflowError and
  \<open>np.zeros\<close> can fail to allocate.
\<close>
theorem failures_without_validation:
  assumes "- 1000 \<le> L" and "L \<le> 1000" and "- 1000 \<le> A" and "A \<le> 1000"
  shows
  "(L div 3 + 1 < 0 \<longrightarrow> create_life_months_grid L A = Inl ValueError) \<and>
   (0 \<le> L div 3 + 1 \<and>
      ((A * 12 - 1) div 36 < - (L div 3 + 1) \<or> L div 3 + 1 \<le> (A * 12 - 1) div 36) \<longrightarrow>
        create_life_months_grid L A = Inl IndexError) \<and>
   (0 \<le> L div 3 + 1 \<and>
      - (L div 3 + 1) \<le> (A * 12 - 1) div 36 \<and> (A * 12 - 1) div 36 < L div 3 + 1 \<longrightarrow>
        (\<exists>g. create_life_months_grid L A = Inr g)) \<and>
   (L = 0 \<longrightarrow> compute_metrics L A = Inl ZeroDivisionError) \<and>
   (L \<noteq> 0 \<longrightarrow> (\<exists>m. compute_metrics L A = Inr m))"
proof -
  let ?R = "L div 3 + 1"
  let ?row = "(A * 12 - 1) div 36"
  have low: "create_life_months_grid L A = Inl IndexError" if "0 \<le> ?R" and "?row < - ?R"
  proof -
    have "A * 12 - 1 < - ?R * 36" using that(2) by (simp only: row_below)
    moreover have "A \<le> 0" if "0 \<le> r" and "A * 12 - 1 < - r * 36" for r :: int
      using that by linarith
    ultimately have "A \<le> 0" using that(1) by blast
    from create_underflow [OF this that] show ?thesis .
  qed
  have high: "create_life_months_grid L A = Inl IndexError" if "0 \<le> ?R" and "?R \<le> ?row"
  proof -
    have "?R * 36 \<le> A * 12 - 1" using that(2) by (simp only: row_above)
    then have "?R * 36 < A * 12" by simp
    from create_overflow [OF that(1) this] show ?thesis .
  qed
  have ok: "\<exists>g. create_life_months_grid L A = Inr g"
    if "0 \<le> ?R" and "- ?R \<le> ?row" and "?row < ?R"
  proof (cases "0 < A")
    case True
    have "A * 12 - 1 < ?R * 36" using that(3) by (simp only: row_below)
    then have "A * 12 \<le> ?R * 36" by simp
    from create_lived [OF True this] show ?thesis by blast
  next
    case False
    then have "A \<le> 0" by simp
    from create_nonpos [OF this that(1,2)] show ?thesis by blast
  qed
  have "L = 0 \<longrightarrow> compute_metrics L A = Inl ZeroDivisionError"
    by (simp add: compute_metrics_def true_div_def)
  moreover have "L \<noteq> 0 \<longrightarrow> (\<exists>m. compute_metrics L A = Inr m)"
    by (simp add: compute_metrics_def true_div_def)
  ultimately show ?thesis using low high ok create_negative_rows [of L A] by blast
qed

theorem failures_without_validation_witness:
  "create_life_months_grid (-4) 0 = Inl ValueError \<and>
   create_life_months_grid 50 52 = Inl IndexError \<and>
   create_life_months_grid 50 (-51) = Inl IndexError \<and>
   (\<exists>g. create_life_months_grid 50 (-1) = Inr g) \<and>
   compute_metrics 0 5 = Inl ZeroDivisionError \<and>
   (\<exists>m. compute_metrics 50 60 = Inr m)"
  using failures_without_validation [of "-4" 0] failures_without_validation [of 50 52]
    failures_without_validation [of 50 "-51"] failures_without_validation [of 50 "-1"]
    failures_without_validation [of 0 5] failures_without_validation [of 50 60]
  by simp

subsection \<open>Two calls with the same arguments\<close>

text \<open>
  The function with its array in the store does what the function on values does, and puts
  the grid in a new last position of the store.
\<close>

lemma setitem_st_last:
  "setitem_st (s @ [g]) (length s) row col v =
     (case setitem g row col v of Inl e \<Rightarrow> Inl e | Inr g' \<Rightarrow> Inr (s @ [g']))"
  by (simp add: setitem_st_def split: sum.splits)

lemma fill_lived_st_last:
  "fill_lived_st ms (length s) (s @ [g]) =
     (case fill_lived ms g of Inl e \<Rightarrow> Inl e | Inr g' \<Rightarrow> Inr (s @ [g']))"
  by (induction ms arbitrary: g) (auto simp: setitem_st_last split: sum.splits)

lemma create_st_refines:
  "create_life_months_grid_st s L A =
     (case create_life_months_grid L A of
        Inl e \<Rightarrow> Inl e
      | Inr g \<Rightarrow> Inr (length s, s @ [g]))"
  by (simp add: create_life_months_grid_st_def create_life_months_grid_def np_zeros_st_def
        fill_lived_st_last setitem_st_last Let_def split: sum.splits)

lemma create_valid_returns:
  assumes "0 \<le> A" and "A \<le> L"
  shows "\<exists>g. create_life_months_grid L A = Inr g"
proof (cases "0 < A")
  case True
  have "A * 12 \<le> (L div 3 + 1) * 36" using assms by (rule valid_writes_in_range)
  from create_lived [OF True this] show ?thesis by blast
next
  case False
  with assms have "A = 0" and L: "0 \<le> L" by simp_all
  have "0 \<le> L div 3" using L by (simp add: pos_imp_zdiv_nonneg_iff)
  then have "A \<le> 0" "0 \<le> L div 3 + 1" "- (L div 3 + 1) \<le> (A * 12 - 1) div 36"
    using \<open>A = 0\<close> by simp_all
  from create_nonpos [OF this] show ?thesis by blast
qed

lemma setitem_st_other:
  "setitem_st s r row col v = Inr s' \<Longrightarrow> r' \<noteq> r \<Longrightarrow> s' ! r' = s ! r'"
  by (auto simp: setitem_st_def split: sum.splits)

text \<open>
  Claim C7. For a lifespan between 50 and 120 and an age between 0 and the lifespan, two
  calls of \<open>create_life_months_grid\<close> with the same arguments, one after the other in any
  store, return references to two different arrays that hold equal grids, cell by cell, the
  grid that the function returns as a value; the second call leaves the first array as it
  was, and an item assignment through either reference leaves the other array unchanged.
\<close>
theorem two_calls_equal_grids_unshared:
  assumes "50 \<le> L" and "L \<le> 120" and "0 \<le> A" and "A \<le> L"
  shows "\<exists>r1 s1 r2 s2.
           create_life_months_grid_st s L A = Inr (r1, s1) \<and>
           create_life_months_grid_st s1 L A = Inr (r2, s2) \<and>
           create_life_months_grid L A = Inr (s2 ! r1) \<and>
           s2 ! r1 = s2 ! r2 \<and> r1 \<noteq> r2 \<and> s2 ! r1 = s1 ! r1 \<and>
           (\<forall>row col v s3. setitem_st s2 r2 row col v = Inr s3 \<longrightarrow> s3 ! r1 = s2 ! r1) \<and>
           (\<forall>row col v s3. setitem_st s2 r1 row col v = Inr s3 \<longrightarrow> s3 ! r2 = s2 ! r2)"
proof -
  obtain g where g: "create_life_months_grid L A = Inr g"
    using create_valid_returns [OF assms(3,4)] by blast
  let ?s1 = "s @ [g]" and ?s2 = "(s @ [g]) @ [g]"
  let ?r1 = "length s" and ?r2 = "length (s @ [g])"
  have first: "create_life_months_grid_st s L A = Inr (?r1, ?s1)"
    by (simp add: create_st_refines g)
  have second: "create_life_months_grid_st ?s1 L A = Inr (?r2, ?s2)"
    by (simp only: create_st_refines g sum.case)
  have vals: "?s2 ! ?r1 = g" "?s2 ! ?r2 = g" "?s1 ! ?r1 = g"
    by (simp_all add: nth_append)
  have ne: "?r1 \<noteq> ?r2" by simp
  have w1: "\<forall>row col v s3. setitem_st ?s2 ?r2 row col v = Inr s3 \<longrightarrow> s3 ! ?r1 = ?s2 ! ?r1"
    using setitem_st_other [of ?s2 ?r2 _ _ _ _ ?r1] ne by blast
  have w2: "\<forall>row col v s3. setitem_st ?s2 ?r1 row col v = Inr s3 \<longrightarrow> s3 ! ?r2 = ?s2 ! ?r2"
    using setitem_st_other [of ?s2 ?r1 _ _ _ _ ?r2] ne [symmetric] by blast
  have "create_life_months_grid L A = Inr (?s2 ! ?r1)" "?s2 ! ?r1 = ?s2 ! ?r2"
    "?s2 ! ?r1 = ?s1 ! ?r1"
    by (simp_all only: vals g)
  with first second ne w1 w2 show ?thesis by blast
qed

theorem two_calls_equal_grids_unshared_witness:
  "(50::int) \<le> 90 \<and> (90::int) \<le> 120 \<and> (0::int) \<le> 30 \<and> (30::int) \<le> 90 \<and>
   (\<exists>r1 s1 r2 s2.
      create_life_months_grid_st [] 90 30 = Inr (r1, s1) \<and>
      create_life_months_grid_st s1 90 30 = Inr (r2, s2) \<and>
      s2 ! r1 = s2 ! r2 \<and> r1 \<noteq> r2)"
proof -
  have h: "(50::int) \<le> 90" "(90::int) \<le> 120" "(0::int) \<le> 30" "(30::int) \<le> 90"
    by simp_all
  from two_calls_equal_grids_unshared [OF h, of "[]"] h show ?thesis by blast
qed

end
